theory Spec2Isabelle
  imports
    Complex_Main
    "HOL-Library.AList"
    "HOL-Library.Char_ord"
    "HOL-Library.List_Lexorder"
begin

section \<open>Data model\<close>

text \<open>
  The provider's answer is a JSON document; the code only ever reads the list found at
  \<^verbatim>\<open>results["outbound"]["fares"]\<close>. An entry of that list is \<^verbatim>\<open>null\<close> (\<open>None\<close>) or an
  object whose keys may be absent (\<open>None\<close> in a field). Prices are JSON numbers, read here
  as rationals; dates are \<^verbatim>\<open>YYYY-MM-DD\<close> strings, compared as Python compares strings.
\<close>

record price_obj =
  p_value :: "rat option"            \<comment> \<open>key \<^verbatim>\<open>value\<close>\<close>
  p_currencyCode :: "string option"  \<comment> \<open>key \<^verbatim>\<open>currencyCode\<close>\<close>

record fare =
  day :: "string option"
  price :: "price_obj option"
  departureDate :: "string option"
  arrivalDate :: "string option"
  unavailable :: "bool option"

datatype fetch_error = FetchError

text \<open>
  What \<^verbatim>\<open>api.get_cheapest_fares(...)\<close> followed by the \<^verbatim>\<open>.get("outbound")\<close>,
  \<^verbatim>\<open>.get("fares", [])\<close> chain yields: an exception of the HTTP call, or the fares list.
\<close>

type_synonym fetch_result = "fetch_error + fare option list"

subsection \<open>Target prices\<close>

text \<open>
  A target price is whatever Python's \<^verbatim>\<open>float\<close> accepts or \<^verbatim>\<open>json.load\<close> reads: a number,
  an infinity or NaN. The two comparisons are those the alert loops make between the
  lowest price, a number, and a target; every comparison with NaN is false.
\<close>

datatype pyfloat = Num rat | PosInf | NegInf | NaN

text \<open>\<^verbatim>\<open>lowest > target\<close>\<close>

fun price_gt :: "rat \<Rightarrow> pyfloat \<Rightarrow> bool" where
  "price_gt p (Num t) = (p > t)"
| "price_gt p PosInf = False"
| "price_gt p NegInf = True"
| "price_gt p NaN = False"

text \<open>\<^verbatim>\<open>lowest <= target\<close>\<close>

fun price_le :: "rat \<Rightarrow> pyfloat \<Rightarrow> bool" where
  "price_le p (Num t) = (p \<le> t)"
| "price_le p PosInf = True"
| "price_le p NegInf = False"
| "price_le p NaN = False"

subsection \<open>Python truthiness\<close>

definition truthy_num :: "rat option \<Rightarrow> bool" where
  "truthy_num v = (case v of None \<Rightarrow> False | Some x \<Rightarrow> x \<noteq> 0)"

definition truthy_str :: "string option \<Rightarrow> bool" where
  "truthy_str s = (case s of None \<Rightarrow> False | Some x \<Rightarrow> x \<noteq> [])"

definition truthy_flag :: "bool option \<Rightarrow> bool" where
  "truthy_flag b = (case b of None \<Rightarrow> False | Some x \<Rightarrow> x)"

text \<open>A price object is a dict: it is truthy when it has at least one key.\<close>

definition truthy_price :: "price_obj option \<Rightarrow> bool" where
  "truthy_price p =
     (case p of None \<Rightarrow> False
      | Some q \<Rightarrow> \<not> (p_value q = None \<and> p_currencyCode q = None))"

text \<open>A fare entry is a dict as well: \<^verbatim>\<open>not fare\<close> holds for \<^verbatim>\<open>{}\<close>.\<close>

definition truthy_fare :: "fare \<Rightarrow> bool" where
  "truthy_fare f =
     (\<not> (day f = None \<and> price f = None \<and> departureDate f = None \<and>
         arrivalDate f = None \<and> unavailable f = None))"

text \<open>\<^verbatim>\<open>(fare.get("price") or {}).get("value")\<close>\<close>

definition price_value :: "fare \<Rightarrow> rat option" where
  "price_value f = (case price f of None \<Rightarrow> None | Some q \<Rightarrow> p_value q)"

text \<open>\<^verbatim>\<open>(fare.get("price") or {}).get("currencyCode", dflt)\<close>\<close>

definition price_currency :: "string \<Rightarrow> fare \<Rightarrow> string" where
  "price_currency dflt f =
     (case price f of None \<Rightarrow> dflt
      | Some q \<Rightarrow> (case p_currencyCode q of None \<Rightarrow> dflt | Some c \<Rightarrow> c))"

text \<open>\<^verbatim>\<open>fare.get("day", "")\<close>\<close>

definition fare_day :: "fare \<Rightarrow> string" where
  "fare_day f = (case day f of None \<Rightarrow> [] | Some d \<Rightarrow> d)"

section \<open>Subscription stores\<close>

text \<open>
  Both bots keep the subscriptions in a module-level dict and mirror it into a JSON file.
  A Python dict keeps insertion order and assigning to an existing key keeps its place,
  which is what \<^const>\<open>AList.update\<close> does on an association list.
\<close>

datatype 'a disk_file = Missing | Corrupt | Valid 'a

text \<open>
  How one \<^verbatim>\<open>open(ALERTS_FILE, 'w')\<close> / \<^verbatim>\<open>json.dump\<close> attempt ends: it succeeds, \<^verbatim>\<open>open\<close>
  raises (the file is untouched), or the dump raises after \<^verbatim>\<open>open\<close> has truncated the
  file (a partial document is left behind).
\<close>

datatype write_outcome = WriteOk | OpenFails | DumpFails

subsection \<open>Discord bot (\<^verbatim>\<open>bot.py\<close>)\<close>

record alert =
  al_price :: pyfloat  \<comment> \<open>key \<^verbatim>\<open>price\<close>\<close>
  al_channel :: int    \<comment> \<open>key \<^verbatim>\<open>channel\<close>\<close>
  al_active :: bool    \<comment> \<open>key \<^verbatim>\<open>active\<close>\<close>

type_synonym alerts_t = "(string \<times> alert) list"

record store =
  alerts :: alerts_t            \<comment> \<open>the global \<^verbatim>\<open>alerts\<close>\<close>
  alerts_file :: "alerts_t disk_file"  \<comment> \<open>the content of \<^verbatim>\<open>alerts.json\<close>\<close>

definition load_alerts :: "store \<Rightarrow> store" where
  "load_alerts s =
     (case alerts_file s of
        Missing \<Rightarrow> s
      | Valid a \<Rightarrow> s\<lparr>alerts := a\<rparr>
      | Corrupt \<Rightarrow> s\<lparr>alerts := []\<rparr>)"

definition save_alerts :: "write_outcome \<Rightarrow> store \<Rightarrow> store" where
  "save_alerts w s =
     (case w of
        WriteOk \<Rightarrow> s\<lparr>alerts_file := Valid (alerts s)\<rparr>
      | OpenFails \<Rightarrow> s
      | DumpFails \<Rightarrow> s\<lparr>alerts_file := Corrupt\<rparr>)"

datatype reply = AlertSet pyfloat | AlertDisabled

definition cmd_alert ::
  "write_outcome \<Rightarrow> string \<Rightarrow> int \<Rightarrow> pyfloat \<Rightarrow> store \<Rightarrow> store \<times> reply" where
  "cmd_alert w uid channel_id target s =
     (let s1 = s\<lparr>alerts :=
                 AList.update uid
                   \<lparr>al_price = target, al_channel = channel_id, al_active = True\<rparr>
                   (alerts s)\<rparr>
      in (save_alerts w s1, AlertSet target))"

definition cmd_stopalert :: "write_outcome \<Rightarrow> string \<Rightarrow> store \<Rightarrow> store \<times> reply" where
  "cmd_stopalert w uid s =
     (if uid \<in> fst ` set (alerts s)
      then (save_alerts w
              (s\<lparr>alerts := AList.map_entry uid (\<lambda>a. a\<lparr>al_active := False\<rparr>) (alerts s)\<rparr>),
            AlertDisabled)
      else (s, AlertDisabled))"

text \<open>\<^verbatim>\<open>alerts.get(uid)\<close>: the lookup every reader of the dict performs.\<close>

definition get_alert :: "store \<Rightarrow> string \<Rightarrow> alert option" where
  "get_alert s uid = map_of (alerts s) uid"

text \<open>
  The set a restart would load: the file's content, or the empty set for a file that
  is missing at startup (the global starts as \<^verbatim>\<open>{}\<close>) or unreadable.
\<close>

definition persisted :: "store \<Rightarrow> alerts_t" where
  "persisted s = alerts (load_alerts \<lparr>alerts = [], alerts_file = alerts_file s\<rparr>)"

subsection \<open>Telegram bot (\<^verbatim>\<open>telegram_bot.py\<close>)\<close>

record tg_alert =
  target_price :: pyfloat
  active :: bool
  created :: string

type_synonym price_alerts_t = "(string \<times> tg_alert) list"

record tg_store =
  price_alerts :: price_alerts_t
  price_alerts_file :: "price_alerts_t disk_file"

definition tg_load_alerts :: "tg_store \<Rightarrow> tg_store" where
  "tg_load_alerts s =
     (case price_alerts_file s of
        Missing \<Rightarrow> s
      | Valid a \<Rightarrow> s\<lparr>price_alerts := a\<rparr>
      | Corrupt \<Rightarrow> s\<lparr>price_alerts := []\<rparr>)"

text \<open>As \<^verbatim>\<open>save_alerts\<close> of \<^verbatim>\<open>bot.py\<close>; its \<^verbatim>\<open>except\<close> prints the error before going on.\<close>

definition tg_save_alerts :: "write_outcome \<Rightarrow> tg_store \<Rightarrow> tg_store" where
  "tg_save_alerts w s =
     (case w of
        WriteOk \<Rightarrow> s\<lparr>price_alerts_file := Valid (price_alerts s)\<rparr>
      | OpenFails \<Rightarrow> s
      | DumpFails \<Rightarrow> s\<lparr>price_alerts_file := Corrupt\<rparr>)"

datatype tg_reply = UsageHint | InvalidPrice | AlertActivated pyfloat | AlertStopped | NoActiveAlert

text \<open>
  \<open>py_float\<close> is Python's \<^verbatim>\<open>float\<close> on the first argument, \<open>None\<close> where it raises
  \<^verbatim>\<open>ValueError\<close>; \<open>now\<close> is \<^verbatim>\<open>datetime.now().isoformat()\<close>. After saving, the command
  fetches the lowest price to word its reply, which changes nothing in the store.
\<close>

definition set_alert_command ::
  "(string \<Rightarrow> pyfloat option) \<Rightarrow> write_outcome \<Rightarrow> string \<Rightarrow> string \<Rightarrow> string list \<Rightarrow>
     tg_store \<Rightarrow> tg_store \<times> tg_reply" where
  "set_alert_command py_float w now chat_id args s =
     (case args of
        [] \<Rightarrow> (s, UsageHint)
      | a # _ \<Rightarrow>
          (case py_float a of
             None \<Rightarrow> (s, InvalidPrice)
           | Some t \<Rightarrow>
               (tg_save_alerts w
                  (s\<lparr>price_alerts :=
                       AList.update chat_id
                         \<lparr>target_price = t, active = True, created = now\<rparr>
                         (price_alerts s)\<rparr>),
                AlertActivated t)))"

definition stop_alert_command :: "write_outcome \<Rightarrow> string \<Rightarrow> tg_store \<Rightarrow> tg_store \<times> tg_reply" where
  "stop_alert_command w chat_id s =
     (if chat_id \<in> fst ` set (price_alerts s)
      then (tg_save_alerts w
              (s\<lparr>price_alerts :=
                   AList.map_entry chat_id (\<lambda>a. a\<lparr>active := False\<rparr>) (price_alerts s)\<rparr>),
            AlertStopped)
      else (s, NoActiveAlert))"

definition tg_get_alert :: "tg_store \<Rightarrow> string \<Rightarrow> tg_alert option" where
  "tg_get_alert s chat_id = map_of (price_alerts s) chat_id"

section \<open>The lowest fare\<close>

subsection \<open>\<^verbatim>\<open>get_current_lowest_price\<close> (\<^verbatim>\<open>telegram_bot.py\<close>)\<close>

text \<open>
  The loop keeps \<^verbatim>\<open>lowest_price\<close>, \<^verbatim>\<open>lowest_date\<close> and \<^verbatim>\<open>currency\<close>, which it always
  assigns together; \<open>None\<close> is their initial state \<^verbatim>\<open>(inf, None, "MAD")\<close>, below which
  every price lies.
\<close>

type_synonym lowest_t = "rat \<times> string \<times> string"

definition below :: "rat \<Rightarrow> lowest_t option \<Rightarrow> bool" where
  "below v acc = (case acc of None \<Rightarrow> True | Some (lp, ld, cur) \<Rightarrow> v < lp)"

fun lowest_scan :: "lowest_t option \<Rightarrow> fare option list \<Rightarrow> lowest_t option" where
  "lowest_scan acc [] = acc"
| "lowest_scan acc (None # fs) = lowest_scan acc fs"
| "lowest_scan acc (Some f # fs) =
     (if \<not> truthy_fare f then lowest_scan acc fs
      else if truthy_flag (unavailable f) then lowest_scan acc fs
      else (case price_value f of
              None \<Rightarrow> lowest_scan acc fs
            | Some v \<Rightarrow>
                if v \<noteq> 0 \<and> below v acc
                then lowest_scan (Some (v, fare_day f, price_currency ''MAD'' f)) fs
                else lowest_scan acc fs))"

definition get_current_lowest_price :: "fetch_result \<Rightarrow> lowest_t option" where
  "get_current_lowest_price r =
     (case r of
        Inl e \<Rightarrow> None
      | Inr fares \<Rightarrow> if fares = [] then None else lowest_scan None fares)"

subsection \<open>\<^verbatim>\<open>get_flights\<close> and \<^verbatim>\<open>get_lowest\<close> (\<^verbatim>\<open>bot.py\<close>)\<close>

record flight =
  fl_date :: string      \<comment> \<open>key \<^verbatim>\<open>date\<close>\<close>
  fl_price :: rat        \<comment> \<open>key \<^verbatim>\<open>price\<close>\<close>
  fl_currency :: string  \<comment> \<open>key \<^verbatim>\<open>currency\<close>\<close>
  fl_dep :: string       \<comment> \<open>key \<^verbatim>\<open>dep\<close>\<close>
  fl_arr :: string       \<comment> \<open>key \<^verbatim>\<open>arr\<close>\<close>

datatype py_error = KeyError | OverflowError

text \<open>\<^verbatim>\<open>f[k][11:16] if f.get(k) else "N/A"\<close>\<close>

definition hhmm :: "string option \<Rightarrow> string" where
  "hhmm s =
     (case s of None \<Rightarrow> ''N/A''
      | Some x \<Rightarrow> if x = [] then ''N/A'' else take 5 (drop 11 x))"

text \<open>The dict display of the comprehension: a subscript on an absent key raises.\<close>

definition to_flight :: "fare \<Rightarrow> py_error + flight" where
  "to_flight f =
     (case day f of
        None \<Rightarrow> Inl KeyError
      | Some d \<Rightarrow>
          (case price f of
             None \<Rightarrow> Inl KeyError
           | Some q \<Rightarrow>
               (case p_value q of
                  None \<Rightarrow> Inl KeyError
                | Some v \<Rightarrow>
                    (case p_currencyCode q of
                       None \<Rightarrow> Inl KeyError
                     | Some c \<Rightarrow>
                         Inr \<lparr>fl_date = d, fl_price = v, fl_currency = c,
                              fl_dep = hhmm (departureDate f),
                              fl_arr = hhmm (arrivalDate f)\<rparr>))))"

text \<open>\<^verbatim>\<open>f and f.get("price") and not f.get("unavailable")\<close>, for an entry that is not null.\<close>

definition keep_fare :: "fare \<Rightarrow> bool" where
  "keep_fare f = (truthy_fare f \<and> truthy_price (price f) \<and> \<not> truthy_flag (unavailable f))"

fun collect_flights :: "fare option list \<Rightarrow> py_error + flight list" where
  "collect_flights [] = Inr []"
| "collect_flights (None # xs) = collect_flights xs"
| "collect_flights (Some f # xs) =
     (if keep_fare f
      then (case to_flight f of
              Inl e \<Rightarrow> Inl e
            | Inr fl \<Rightarrow>
                (case collect_flights xs of
                   Inl e \<Rightarrow> Inl e
                 | Inr fls \<Rightarrow> Inr (fl # fls)))
      else collect_flights xs)"

text \<open>
  Python's \<^verbatim>\<open>sorted\<close> is stable, as the insertion sort \<^const>\<open>sort_key\<close> is. The bare
  \<^verbatim>\<open>except\<close> turns every exception, of the fetch or of the comprehension, into \<^verbatim>\<open>[]\<close>.
\<close>

definition get_flights :: "fetch_result \<Rightarrow> flight list" where
  "get_flights r =
     (case r of
        Inl e \<Rightarrow> []
      | Inr fares \<Rightarrow>
          (case collect_flights fares of
             Inl e \<Rightarrow> []
           | Inr fls \<Rightarrow> sort_key fl_price fls))"

definition get_lowest :: "fetch_result \<Rightarrow> flight option" where
  "get_lowest r = (case get_flights r of [] \<Rightarrow> None | x # xs \<Rightarrow> Some x)"

section \<open>The periodic alert check\<close>

subsection \<open>\<^verbatim>\<open>check_alerts\<close> (\<^verbatim>\<open>bot.py\<close>)\<close>

record embed =
  em_mention :: string  \<comment> \<open>the user mentioned in the description\<close>
  em_target :: pyfloat  \<comment> \<open>field \<^verbatim>\<open>Target\<close>\<close>
  em_current :: rat     \<comment> \<open>field \<^verbatim>\<open>Current\<close>\<close>
  em_date :: string     \<comment> \<open>field \<^verbatim>\<open>Date\<close>\<close>

text \<open>
  The Discord client, as the loop uses it: whether \<^verbatim>\<open>bot.get_channel(id)\<close> finds the
  channel, and whether \<^verbatim>\<open>channel.send(embed=...)\<close> returns (\<open>True\<close>) or raises.
\<close>

record discord =
  get_channel :: "int \<Rightarrow> bool"
  channel_send :: "int \<Rightarrow> embed \<Rightarrow> bool"

datatype send_error = SendError

text \<open>
  The loop returns the messages sent, in order, and the exception that ended it, if any:
  no \<^verbatim>\<open>try\<close> surrounds \<^verbatim>\<open>channel.send\<close>, so a send that raises leaves the loop.
\<close>

fun alerts_loop :: "discord \<Rightarrow> flight \<Rightarrow> alerts_t \<Rightarrow> (int \<times> embed) list \<times> send_error option" where
  "alerts_loop env lowest [] = ([], None)"
| "alerts_loop env lowest ((uid, d) # rest) =
     (if \<not> al_active d \<or> price_gt (fl_price lowest) (al_price d) then alerts_loop env lowest rest
      else if get_channel env (al_channel d)
      then (let e = \<lparr>em_mention = uid, em_target = al_price d,
                      em_current = fl_price lowest, em_date = fl_date lowest\<rparr>
            in if channel_send env (al_channel d) e
               then (case alerts_loop env lowest rest of
                       (sent, err) \<Rightarrow> ((al_channel d, e) # sent, err))
               else ([], Some SendError))
      else alerts_loop env lowest rest)"

definition check_alerts ::
  "discord \<Rightarrow> fetch_result \<Rightarrow> store \<Rightarrow> store \<times> (int \<times> embed) list \<times> send_error option" where
  "check_alerts env r s =
     (case get_lowest r of
        None \<Rightarrow> (s, [], None)
      | Some lowest \<Rightarrow> (s, alerts_loop env lowest (alerts s)))"

subsection \<open>\<^verbatim>\<open>check_alerts_job\<close> (\<^verbatim>\<open>telegram_bot.py\<close>)\<close>

record tg_message =
  m_target :: pyfloat
  m_price :: rat
  m_currency :: string
  m_date :: string

text \<open>
  What one pass of the loop does for a subscriber: the message went out, or
  \<^verbatim>\<open>send_message\<close> raised and the \<^verbatim>\<open>except\<close> printed the error.
\<close>

datatype tg_event = Sent string tg_message | SendFailed string

fun job_loop :: "(string \<Rightarrow> tg_message \<Rightarrow> bool) \<Rightarrow> lowest_t \<Rightarrow> price_alerts_t \<Rightarrow> tg_event list" where
  "job_loop send_message low [] = []"
| "job_loop send_message low ((chat_id, a) # rest) =
     (if \<not> active a then job_loop send_message low rest
      else if price_le (fst low) (target_price a)
      then (let m = \<lparr>m_target = target_price a, m_price = fst low,
                      m_currency = snd (snd low), m_date = fst (snd low)\<rparr>
            in (if send_message chat_id m then Sent chat_id m else SendFailed chat_id)
               # job_loop send_message low rest)
      else job_loop send_message low rest)"

definition check_alerts_job ::
  "(string \<Rightarrow> tg_message \<Rightarrow> bool) \<Rightarrow> fetch_result \<Rightarrow> tg_store \<Rightarrow> tg_store \<times> tg_event list" where
  "check_alerts_job send_message r s =
     (if price_alerts s = [] then (s, [])
      else (case get_current_lowest_price r of
              None \<Rightarrow> (s, [])
            | Some low \<Rightarrow>
                if fst low = 0 then (s, [])
                else (s, job_loop send_message low (price_alerts s))))"

text \<open>
  A run of ticks: one fetch result per tick, the store handed from each tick to the next.
  Whether the scheduler runs another tick after one that raised is the library's business;
  the run lists what each tick does when it is run.
\<close>

fun job_ticks ::
  "(string \<Rightarrow> tg_message \<Rightarrow> bool) \<Rightarrow> fetch_result list \<Rightarrow> tg_store \<Rightarrow> tg_event list list" where
  "job_ticks send_message [] s = []"
| "job_ticks send_message (r # rs) s =
     (case check_alerts_job send_message r s of
        (s', evs) \<Rightarrow> evs # job_ticks send_message rs s')"

fun alert_ticks ::
  "discord \<Rightarrow> fetch_result list \<Rightarrow> store \<Rightarrow> ((int \<times> embed) list \<times> send_error option) list" where
  "alert_ticks env [] s = []"
| "alert_ticks env (r # rs) s =
     (case check_alerts env r s of
        (s', out) \<Rightarrow> out # alert_ticks env rs s')"

section \<open>Listings\<close>

subsection \<open>\<^verbatim>\<open>format_cheapest_fares\<close> (\<^verbatim>\<open>ryanair_api.py\<close>)\<close>

text \<open>
  The lines of the text returned. A fare line stands for
  \<^verbatim>\<open>f"  {day}: {amount:.2f} {currency}"\<close>; the rule and the title are the three header
  lines.
\<close>

datatype line = NoFaresFound | Rule | Title | FareLine string rat string

text \<open>
  The loop building \<^verbatim>\<open>valid_fares\<close>; each fare is kept with its \<^verbatim>\<open>value\<close>, which is the
  sort key and the amount printed.
\<close>

fun valid_fares :: "fare option list \<Rightarrow> (rat \<times> fare) list" where
  "valid_fares [] = []"
| "valid_fares (None # fs) = valid_fares fs"
| "valid_fares (Some f # fs) =
     (if \<not> truthy_fare f then valid_fares fs
      else (case price_value f of
              None \<Rightarrow> valid_fares fs
            | Some v \<Rightarrow> if v \<noteq> 0 then (v, f) # valid_fares fs else valid_fares fs))"

definition format_cheapest_fares :: "fare option list \<Rightarrow> line list" where
  "format_cheapest_fares fares =
     (if fares = [] then [NoFaresFound]
      else [Rule, Title, Rule] @
           map (\<lambda>(v, f). FareLine (fare_day f) v (price_currency ''EUR'' f))
             (sort_key fst (valid_fares fares)))"

subsection \<open>\<^verbatim>\<open>display_flights\<close> (\<^verbatim>\<open>check_flights.py\<close>)\<close>

text \<open>The comprehension that selects the fares the command displays.\<close>

fun display_valid_fares :: "fare option list \<Rightarrow> fare list" where
  "display_valid_fares [] = []"
| "display_valid_fares (None # fs) = display_valid_fares fs"
| "display_valid_fares (Some f # fs) =
     (if keep_fare f then f # display_valid_fares fs else display_valid_fares fs)"

section \<open>The query window\<close>

text \<open>
  A date is its proleptic Gregorian ordinal (\<^verbatim>\<open>date.toordinal()\<close>), so that adding
  \<^verbatim>\<open>timedelta(days=n)\<close> adds \<open>n\<close>; Python raises \<^verbatim>\<open>OverflowError\<close> for a timedelta of
  more than 999999999 days and for a result outside the years 1 to 9999.
\<close>

definition add_days :: "int \<Rightarrow> int \<Rightarrow> py_error + int" where
  "add_days d n =
     (if n < - 999999999 \<or> 999999999 < n then Inl OverflowError
      else if d + n < 1 \<or> 3652059 < d + n then Inl OverflowError
      else Inr (d + n))"

text \<open>
  The parameters \<^verbatim>\<open>outboundDateFrom\<close> and \<^verbatim>\<open>outboundDateTo\<close> that
  \<^verbatim>\<open>RyanairAPI.get_cheapest_fares\<close> sends.
\<close>

definition get_cheapest_fares_params :: "int \<Rightarrow> int \<Rightarrow> py_error + int \<times> int" where
  "get_cheapest_fares_params date_out flex_days =
     (case add_days date_out (flex_days * 2) of
        Inl e \<Rightarrow> Inl e
      | Inr date_to \<Rightarrow> Inr (date_out, date_to))"

text \<open>
  The parameters that \<^verbatim>\<open>get_flights\<close> of \<^verbatim>\<open>check_flights.py\<close> sends, \<open>now\<close> being the
  current day.
\<close>

definition check_flights_params :: "int \<Rightarrow> int \<Rightarrow> int option \<Rightarrow> py_error + int \<times> int" where
  "check_flights_params now days specific_date =
     (case specific_date of
        Some d \<Rightarrow> Inr (d, d)
      | None \<Rightarrow>
          (case add_days now 1 of
             Inl e \<Rightarrow> Inl e
           | Inr start_date \<Rightarrow>
               (case add_days now days of
                  Inl e \<Rightarrow> Inl e
                | Inr end_date \<Rightarrow> Inr (start_date, end_date))))"

section \<open>Notions used to state the properties\<close>

text \<open>
  A fare entry is available when it is an object that is not flagged unavailable and has
  a price value other than zero: the entries \<^verbatim>\<open>get_current_lowest_price\<close> considers.
\<close>

definition available :: "fare option \<Rightarrow> bool" where
  "available x =
     (case x of None \<Rightarrow> False
      | Some f \<Rightarrow> \<not> truthy_flag (unavailable f) \<and> truthy_num (price_value f))"

fun available_fares :: "fare option list \<Rightarrow> fare list" where
  "available_fares [] = []"
| "available_fares (None # fs) = available_fares fs"
| "available_fares (Some f # fs) =
     (if available (Some f) then f # available_fares fs else available_fares fs)"

text \<open>
  What the loop stores for an available fare: its price, day and currency. Only available
  fares are ever quoted; for a fare without a price value the first component is 0.
\<close>

definition quote :: "fare \<Rightarrow> lowest_t" where
  "quote f = ((case price_value f of None \<Rightarrow> 0 | Some v \<Rightarrow> v), fare_day f, price_currency ''MAD'' f)"

text \<open>The first element of a list among those of least key.\<close>

fun first_min :: "('a \<Rightarrow> rat) \<Rightarrow> 'a list \<Rightarrow> 'a option" where
  "first_min k [] = None"
| "first_min k (x # xs) =
     (case first_min k xs of None \<Rightarrow> Some x
      | Some y \<Rightarrow> if k x \<le> k y then Some x else Some y)"

text \<open>An entry that, if it is available, costs more than \<open>p\<close>; or at least \<open>p\<close>.\<close>

definition dearer :: "rat \<Rightarrow> fare option \<Rightarrow> bool" where
  "dearer p x =
     (case x of None \<Rightarrow> True
      | Some g \<Rightarrow> if available x then (case price_value g of None \<Rightarrow> True | Some v \<Rightarrow> p < v) else True)"

definition not_cheaper :: "rat \<Rightarrow> fare option \<Rightarrow> bool" where
  "not_cheaper p x =
     (case x of None \<Rightarrow> True
      | Some g \<Rightarrow> if available x then (case price_value g of None \<Rightarrow> True | Some v \<Rightarrow> p \<le> v) else True)"

text \<open>The available fares come in ascending order of their day.\<close>

definition date_ordered :: "fare option list \<Rightarrow> bool" where
  "date_ordered fares = sorted (map fare_day (available_fares fares))"

text \<open>
  A fare that has its day, its price value and its currency, the value not zero; a list
  is well formed for \<^verbatim>\<open>bot.py\<close> when every fare that passes its filter is such.
\<close>

definition complete :: "fare \<Rightarrow> bool" where
  "complete f =
     (case day f of None \<Rightarrow> False
      | Some d \<Rightarrow>
          (case price f of None \<Rightarrow> False
           | Some q \<Rightarrow>
               (case p_value q of None \<Rightarrow> False
                | Some v \<Rightarrow> (case p_currencyCode q of None \<Rightarrow> False | Some c \<Rightarrow> v \<noteq> 0))))"

fun well_formed :: "fare option list \<Rightarrow> bool" where
  "well_formed [] = True"
| "well_formed (None # fs) = well_formed fs"
| "well_formed (Some f # fs) = ((if keep_fare f then complete f else True) \<and> well_formed fs)"

definition triple :: "flight \<Rightarrow> lowest_t" where
  "triple fl = (fl_price fl, fl_date fl, fl_currency fl)"

subsection \<open>Sample fare lists\<close>

definition ex_fares :: "fare option list" where
  "ex_fares =
    [Some \<lparr>day = Some ''2025-03-01'', price = Some \<lparr>p_value = Some 180, p_currencyCode = Some ''MAD''\<rparr>,
           departureDate = Some ''2025-03-01T09:35:00.000'', arrivalDate = Some ''2025-03-01T10:55:00.000'',
           unavailable = Some False\<rparr>,
     Some \<lparr>day = Some ''2025-03-04'', price = Some \<lparr>p_value = Some 150, p_currencyCode = Some ''MAD''\<rparr>,
           departureDate = Some ''2025-03-04T10:05:00.000'', arrivalDate = Some ''2025-03-04T11:25:00.000'',
           unavailable = Some False\<rparr>,
     Some \<lparr>day = Some ''2025-03-08'', price = Some \<lparr>p_value = Some 150, p_currencyCode = Some ''MAD''\<rparr>,
           departureDate = None, arrivalDate = None, unavailable = Some True\<rparr>]"

definition unordered_fares :: "fare option list" where
  "unordered_fares =
    [Some \<lparr>day = Some ''2025-03-08'', price = Some \<lparr>p_value = Some 150, p_currencyCode = Some ''MAD''\<rparr>,
           departureDate = Some ''2025-03-08T09:35:00.000'', arrivalDate = Some ''2025-03-08T10:55:00.000'',
           unavailable = Some False\<rparr>,
     Some \<lparr>day = Some ''2025-03-04'', price = Some \<lparr>p_value = Some 150, p_currencyCode = Some ''MAD''\<rparr>,
           departureDate = Some ''2025-03-04T10:05:00.000'', arrivalDate = Some ''2025-03-04T11:25:00.000'',
           unavailable = Some False\<rparr>]"

definition flagged_fares :: "fare option list" where
  "flagged_fares =
    [None,
     Some \<lparr>day = Some ''2025-03-08'', price = Some \<lparr>p_value = Some 150, p_currencyCode = Some ''MAD''\<rparr>,
           departureDate = None, arrivalDate = None, unavailable = Some True\<rparr>]"

definition zero_fares :: "fare option list" where
  "zero_fares =
    [Some \<lparr>day = Some ''2025-03-11'', price = Some \<lparr>p_value = Some 0, p_currencyCode = Some ''MAD''\<rparr>,
           departureDate = None, arrivalDate = None, unavailable = Some False\<rparr>,
     Some \<lparr>day = Some ''2025-03-04'', price = Some \<lparr>p_value = Some 150, p_currencyCode = Some ''MAD''\<rparr>,
           departureDate = None, arrivalDate = None, unavailable = Some False\<rparr>]"

subsection \<open>Notifications\<close>

text \<open>The embed \<^verbatim>\<open>check_alerts\<close> builds for a subscription, and the test it applies.\<close>

definition alert_embed :: "flight \<Rightarrow> string \<times> alert \<Rightarrow> embed" where
  "alert_embed lowest sub =
     (case sub of (uid, d) \<Rightarrow>
        \<lparr>em_mention = uid, em_target = al_price d,
         em_current = fl_price lowest, em_date = fl_date lowest\<rparr>)"

definition satisfied :: "rat \<Rightarrow> string \<times> alert \<Rightarrow> bool" where
  "satisfied p sub = (case sub of (uid, d) \<Rightarrow> al_active d \<and> price_le p (al_price d))"

text \<open>
  A subscription whose notification the Discord client delivers: its channel is found and
  the send returns.
\<close>

definition deliverable :: "discord \<Rightarrow> flight \<Rightarrow> string \<times> alert \<Rightarrow> bool" where
  "deliverable env lowest sub =
     (case sub of (uid, d) \<Rightarrow>
        get_channel env (al_channel d) \<and>
        channel_send env (al_channel d) (alert_embed lowest sub))"

text \<open>The client finds the channel stored with the subscription.\<close>

definition found :: "discord \<Rightarrow> string \<times> alert \<Rightarrow> bool" where
  "found env sub = (case sub of (uid, d) \<Rightarrow> get_channel env (al_channel d))"

text \<open>A subscription that is satisfied and whose channel the client finds.\<close>

definition notified :: "discord \<Rightarrow> rat \<Rightarrow> string \<times> alert \<Rightarrow> bool" where
  "notified env p sub = (satisfied p sub \<and> found env sub)"

text \<open>The target of an active subscription is not NaN.\<close>

definition numeric_target :: "string \<times> alert \<Rightarrow> bool" where
  "numeric_target sub =
     (case sub of (uid, d) \<Rightarrow> if al_active d then al_price d \<noteq> NaN else True)"

text \<open>The send for a subscription that is to be notified returns.\<close>

definition send_returns :: "discord \<Rightarrow> flight \<Rightarrow> string \<times> alert \<Rightarrow> bool" where
  "send_returns env lowest sub =
     (if notified env (fl_price lowest) sub
      then channel_send env (al_channel (snd sub)) (alert_embed lowest sub)
      else True)"

text \<open>The same for \<^verbatim>\<open>check_alerts_job\<close>: the message, the test, and what one pass records.\<close>

definition alert_message :: "lowest_t \<Rightarrow> tg_alert \<Rightarrow> tg_message" where
  "alert_message low a =
     \<lparr>m_target = target_price a, m_price = fst low,
      m_currency = snd (snd low), m_date = fst (snd low)\<rparr>"

definition tg_satisfied :: "rat \<Rightarrow> string \<times> tg_alert \<Rightarrow> bool" where
  "tg_satisfied p sub = (case sub of (chat_id, a) \<Rightarrow> active a \<and> price_le p (target_price a))"

definition tg_notify :: "(string \<Rightarrow> tg_message \<Rightarrow> bool) \<Rightarrow> lowest_t \<Rightarrow> string \<times> tg_alert \<Rightarrow> tg_event" where
  "tg_notify send_message low sub =
     (case sub of (chat_id, a) \<Rightarrow>
        if send_message chat_id (alert_message low a)
        then Sent chat_id (alert_message low a) else SendFailed chat_id)"

text \<open>A fare list with no fare on offer: every entry is null or flagged unavailable.\<close>

definition all_unavailable :: "fare option list \<Rightarrow> bool" where
  "all_unavailable fares =
     list_all (\<lambda>x. case x of None \<Rightarrow> True | Some f \<Rightarrow> truthy_flag (unavailable f)) fares"

subsection \<open>Sample stores and clients\<close>

definition sample_store :: store where
  "sample_store =
     \<lparr>alerts =
        [(''11'', \<lparr>al_price = Num 160, al_channel = 7, al_active = True\<rparr>),
         (''12'', \<lparr>al_price = Num 140, al_channel = 8, al_active = True\<rparr>),
         (''13'', \<lparr>al_price = Num 200, al_channel = 9, al_active = False\<rparr>),
         (''14'', \<lparr>al_price = Num 150, al_channel = 10, al_active = True\<rparr>)],
      alerts_file = Missing\<rparr>"

definition sample_tg_store :: tg_store where
  "sample_tg_store =
     \<lparr>price_alerts =
        [(''1001'', \<lparr>target_price = Num 160, active = True, created = ''2025-02-01T08:00:00''\<rparr>),
         (''1002'', \<lparr>target_price = Num 140, active = True, created = ''2025-02-02T08:00:00''\<rparr>),
         (''1003'', \<lparr>target_price = Num 200, active = False, created = ''2025-02-03T08:00:00''\<rparr>),
         (''1004'', \<lparr>target_price = Num 150, active = True, created = ''2025-02-04T08:00:00''\<rparr>)],
      price_alerts_file = Missing\<rparr>"

text \<open>A Discord client that finds every channel and whose sends all return.\<close>

definition reliable_discord :: discord where
  "reliable_discord = \<lparr>get_channel = (\<lambda>c. True), channel_send = (\<lambda>c e. True)\<rparr>"

text \<open>A Discord client whose send to channel 7 raises.\<close>

definition failing_discord :: discord where
  "failing_discord = \<lparr>get_channel = (\<lambda>c. True), channel_send = (\<lambda>c e. c \<noteq> 7)\<rparr>"

definition ex_lowest :: flight where
  "ex_lowest = \<lparr>fl_date = ''2025-03-04'', fl_price = 150, fl_currency = ''MAD'',
                 fl_dep = ''10:05'', fl_arr = ''11:25''\<rparr>"

text \<open>A Discord client that does not find channel 7.\<close>

definition deaf_discord :: discord where
  "deaf_discord = \<lparr>get_channel = (\<lambda>c. c \<noteq> 7), channel_send = (\<lambda>c e. True)\<rparr>"

text \<open>A Discord client that finds channels 7 and 10 only, and sends to no other.\<close>

definition patchy_discord :: discord where
  "patchy_discord =
     \<lparr>get_channel = (\<lambda>c. c = 7 \<or> c = 10), channel_send = (\<lambda>c e. c = 7 \<or> c = 10)\<rparr>"

text \<open>Stores with one active subscription whose target is NaN.\<close>

definition nan_store :: store where
  "nan_store =
     \<lparr>alerts = [(''15'', \<lparr>al_price = NaN, al_channel = 11, al_active = True\<rparr>)],
      alerts_file = Missing\<rparr>"

definition nan_tg_store :: tg_store where
  "nan_tg_store =
     \<lparr>price_alerts =
        [(''1005'', \<lparr>target_price = NaN, active = True, created = ''2025-02-05T08:00:00''\<rparr>)],
      price_alerts_file = Missing\<rparr>"

definition stale_store :: store where
  "stale_store =
     \<lparr>alerts = [(''42'', \<lparr>al_price = Num 200, al_channel = 7, al_active = False\<rparr>)],
      alerts_file = Valid [(''42'', \<lparr>al_price = Num 200, al_channel = 7, al_active = False\<rparr>)]\<rparr>"

definition stale_tg_store :: tg_store where
  "stale_tg_store =
     \<lparr>price_alerts = [(''42'', \<lparr>target_price = Num 200, active = False, created = ''2025-02-01T08:00:00''\<rparr>)],
      price_alerts_file = Missing\<rparr>"

definition empty_store :: store where
  "empty_store = \<lparr>alerts = [], alerts_file = Valid []\<rparr>"

definition active_store :: store where
  "active_store =
     \<lparr>alerts = [(''42'', \<lparr>al_price = Num 160, al_channel = 7, al_active = True\<rparr>)],
      alerts_file = Valid [(''42'', \<lparr>al_price = Num 160, al_channel = 7, al_active = True\<rparr>)]\<rparr>"

section \<open>The lowest fare\<close>

lemma price_value_truthy: "price_value f = Some v \<Longrightarrow> truthy_fare f"
  by (auto simp: price_value_def truthy_fare_def split: option.splits)

lemma scan_step:
  "lowest_scan acc (Some f # fs) =
     (if available (Some f) \<and> below (fst (quote f)) acc then lowest_scan (Some (quote f)) fs
      else lowest_scan acc fs)"
  by (auto simp: available_def quote_def truthy_num_def dest: price_value_truthy split: option.splits)

declare lowest_scan.simps(3) [simp del]

lemma scan_none: "lowest_scan acc fares = None \<longleftrightarrow> acc = None \<and> (\<forall>x\<in>set fares. \<not> available x)"
proof (induction fares arbitrary: acc)
  case Nil show ?case by simp
next
  case (Cons x xs)
  show ?case
  proof (cases x)
    case None then show ?thesis using Cons.IH[of acc] by (simp add: available_def)
  next
    case (Some f)
    show ?thesis unfolding Some using Cons.IH by (auto simp: scan_step below_def)
  qed
qed

lemma dearer_simps [simp]:
  "dearer p None"
  "dearer p (Some g) = (available (Some g) \<longrightarrow> p < fst (quote g))"
  by (auto simp: dearer_def quote_def available_def truthy_num_def split: option.splits)

lemma not_cheaper_simps [simp]:
  "not_cheaper p None"
  "not_cheaper p (Some g) = (available (Some g) \<longrightarrow> p \<le> fst (quote g))"
  by (auto simp: not_cheaper_def quote_def available_def truthy_num_def split: option.splits)

lemma below_trans: "below p (Some q) \<Longrightarrow> below (fst q) acc \<Longrightarrow> below p acc"
  by (auto simp: below_def split: option.splits prod.splits)

lemma scan_some:
  "lowest_scan acc fares = Some q \<Longrightarrow>
     (acc = Some q \<and> list_all (not_cheaper (fst q)) fares)
   \<or> (\<exists>pre f post. fares = pre @ Some f # post \<and> available (Some f) \<and> quote f = q \<and>
         below (fst q) acc \<and> list_all (dearer (fst q)) pre \<and> list_all (not_cheaper (fst q)) post)"
proof (induction fares arbitrary: acc)
  case Nil then show ?case by simp
next
  case (Cons x xs)
  show ?case
  proof (cases x)
    case None
    with Cons.prems have "lowest_scan acc xs = Some q" by simp
    from Cons.IH[OF this] show ?thesis
    proof
      assume "acc = Some q \<and> list_all (not_cheaper (fst q)) xs"
      then show ?thesis using None by simp
    next
      assume "\<exists>pre f post. xs = pre @ Some f # post \<and> available (Some f) \<and> quote f = q \<and>
         below (fst q) acc \<and> list_all (dearer (fst q)) pre \<and> list_all (not_cheaper (fst q)) post"
      then obtain pre f post where h: "xs = pre @ Some f # post" "available (Some f)" "quote f = q"
         "below (fst q) acc" "list_all (dearer (fst q)) pre" "list_all (not_cheaper (fst q)) post" by blast
      have "x # xs = (None # pre) @ Some f # post" using h None by simp
      moreover have "list_all (dearer (fst q)) (None # pre)" using h by simp
      ultimately show ?thesis using h by blast
    qed
  next
    case (Some g)
    show ?thesis
    proof (cases "available (Some g) \<and> below (fst (quote g)) acc")
      case True
      with Cons.prems Some have "lowest_scan (Some (quote g)) xs = Some q" by (simp add: scan_step)
      from Cons.IH[OF this] show ?thesis
      proof
        assume a: "Some (quote g) = Some q \<and> list_all (not_cheaper (fst q)) xs"
        have "x # xs = [] @ Some g # xs" using Some by simp
        moreover have "list_all (dearer (fst q)) []" by simp
        ultimately show ?thesis using a True by blast
      next
        assume "\<exists>pre f post. xs = pre @ Some f # post \<and> available (Some f) \<and> quote f = q \<and>
           below (fst q) (Some (quote g)) \<and> list_all (dearer (fst q)) pre \<and> list_all (not_cheaper (fst q)) post"
        then obtain pre f post where h: "xs = pre @ Some f # post" "available (Some f)" "quote f = q"
           "below (fst q) (Some (quote g))" "list_all (dearer (fst q)) pre" "list_all (not_cheaper (fst q)) post" by blast
        have e: "x # xs = (Some g # pre) @ Some f # post" using h Some by simp
        have "fst q < fst (quote g)" using h(4) by (simp add: below_def split: prod.splits)
        then have b: "list_all (dearer (fst q)) (Some g # pre)" using h by simp
        have "below (fst q) acc" using below_trans[OF h(4)] True by simp
        then show ?thesis using e b h by blast
      qed
    next
      case False
      with Cons.prems Some have "lowest_scan acc xs = Some q" by (simp add: scan_step)
      from Cons.IH[OF this] show ?thesis
      proof
        assume a: "acc = Some q \<and> list_all (not_cheaper (fst q)) xs"
        then have "available (Some g) \<longrightarrow> fst q \<le> fst (quote g)"
          using False by (auto simp: below_def split: prod.splits)
        then show ?thesis using a Some by simp
      next
        assume "\<exists>pre f post. xs = pre @ Some f # post \<and> available (Some f) \<and> quote f = q \<and>
           below (fst q) acc \<and> list_all (dearer (fst q)) pre \<and> list_all (not_cheaper (fst q)) post"
        then obtain pre f post where h: "xs = pre @ Some f # post" "available (Some f)" "quote f = q"
           "below (fst q) acc" "list_all (dearer (fst q)) pre" "list_all (not_cheaper (fst q)) post" by blast
        have e: "x # xs = (Some g # pre) @ Some f # post" using h Some by simp
        have "available (Some g) \<longrightarrow> fst q < fst (quote g)"
          using False h(4) by (auto simp: below_def split: option.splits prod.splits)
        then have b: "list_all (dearer (fst q)) (Some g # pre)" using h by simp
        show ?thesis using e b h by blast
      qed
    qed
  qed
qed

lemma head_insort_key:
  "(case insort_key k x ys of [] \<Rightarrow> None | z # _ \<Rightarrow> Some z) =
     (case ys of [] \<Rightarrow> Some x | y # _ \<Rightarrow> if k x \<le> k y then Some x else Some y)"
  by (cases ys) auto

lemma head_sort_key:
  "(case sort_key k xs of [] \<Rightarrow> None | z # _ \<Rightarrow> Some z) = first_min k xs"
proof (induction xs)
  case Nil show ?case by simp
next
  case (Cons x xs)
  have "(case sort_key k (x # xs) of [] \<Rightarrow> None | z # _ \<Rightarrow> Some z) =
      (case sort_key k xs of [] \<Rightarrow> Some x | y # _ \<Rightarrow> if k x \<le> k y then Some x else Some y)"
    using head_insort_key[of k x "sort_key k xs"] by simp
  also have "\<dots> = first_min k (x # xs)"
    using Cons.IH[symmetric] by (cases "sort_key k xs") simp_all
  finally show ?case .
qed

lemma first_min_map: "map_option g (first_min (\<lambda>x. k (g x)) xs) = first_min k (map g xs)"
proof (induction xs)
  case Nil show ?case by simp
next
  case (Cons x xs)
  show ?case using Cons.IH[symmetric] by (auto split: option.splits)
qed

lemma scan_from:
  "lowest_scan (Some a) fares =
     (case first_min fst (map quote (available_fares fares)) of
        None \<Rightarrow> Some a
      | Some y \<Rightarrow> if fst a \<le> fst y then Some a else Some y)"
proof (induction fares arbitrary: a)
  case Nil show ?case by simp
next
  case (Cons x xs)
  show ?case
  proof (cases x)
    case None then show ?thesis using Cons.IH by simp
  next
    case (Some g)
    show ?thesis unfolding Some
      by (cases a) (auto simp: scan_step Cons.IH below_def split: option.splits)
  qed
qed

lemma scan_first_min:
  "lowest_scan None fares = first_min fst (map quote (available_fares fares))"
proof (induction fares)
  case Nil show ?case by simp
next
  case (Cons x xs)
  show ?case
  proof (cases x)
    case None then show ?thesis using Cons.IH by simp
  next
    case (Some g)
    show ?thesis unfolding Some
      by (auto simp: scan_step Cons.IH scan_from below_def split: option.splits)
  qed
qed

lemma available_quote: "available (Some f) \<Longrightarrow> quote f = (p, d, c) \<Longrightarrow>
    price_value f = Some p \<and> fare_day f = d \<and> price_currency ''MAD'' f = c"
  by (auto simp: available_def quote_def truthy_num_def split: option.splits)

lemma available_fares_set: "set (available_fares xs) = {g. Some g \<in> set xs \<and> available (Some g)}"
proof (induction xs)
  case Nil show ?case by simp
next
  case (Cons x xs) then show ?case by (cases x) auto
qed

lemma available_fares_empty: "available_fares xs = [] \<longleftrightarrow> (\<forall>x\<in>set xs. \<not> available x)"
proof (induction xs)
  case Nil show ?case by simp
next
  case (Cons x xs) then show ?case by (cases x) (auto simp: available_def)
qed

lemma available_fares_append: "available_fares (xs @ ys) = available_fares xs @ available_fares ys"
proof (induction xs)
  case Nil show ?case by simp
next
  case (Cons x xs) then show ?case by (cases x) auto
qed

lemma lowest_price_scan: "get_current_lowest_price (Inr fares) = lowest_scan None fares"
  by (simp add: get_current_lowest_price_def)

lemma keep_iff_available: "complete f \<Longrightarrow> keep_fare f \<longleftrightarrow> available (Some f)"
  by (auto simp: complete_def keep_fare_def available_def truthy_price_def truthy_fare_def
      truthy_num_def price_value_def split: option.splits)

lemma available_keep: "available (Some f) \<Longrightarrow> keep_fare f"
  by (auto simp: keep_fare_def available_def truthy_price_def truthy_fare_def
      truthy_num_def price_value_def split: option.splits)

lemma to_flight_complete: "complete f \<Longrightarrow> \<exists>fl. to_flight f = Inr fl \<and> triple fl = quote f"
  by (auto simp: complete_def to_flight_def triple_def quote_def price_value_def fare_day_def
      price_currency_def split: option.splits)

lemma collect_well_formed:
  "well_formed fares \<Longrightarrow>
     \<exists>fls. collect_flights fares = Inr fls \<and> map triple fls = map quote (available_fares fares)"
proof (induction fares)
  case Nil show ?case by simp
next
  case (Cons x xs)
  show ?case
  proof (cases x)
    case None then show ?thesis using Cons by simp
  next
    case (Some f)
    from Cons Some obtain fls where fls: "collect_flights xs = Inr fls"
      "map triple fls = map quote (available_fares xs)" by auto
    show ?thesis
    proof (cases "keep_fare f")
      case True
      then have c: "complete f" using Cons.prems Some by simp
      then have a: "available (Some f)" using True keep_iff_available by blast
      from to_flight_complete[OF c] obtain fl where "to_flight f = Inr fl" "triple fl = quote f" by blast
      then show ?thesis using Some True a fls by simp
    next
      case False
      then have "\<not> available (Some f)" using available_keep by blast
      then show ?thesis using Some False fls by simp
    qed
  qed
qed

lemma get_lowest_agrees:
  assumes "well_formed fares"
  shows "map_option triple (get_lowest (Inr fares)) = get_current_lowest_price (Inr fares)"
proof -
  from collect_well_formed[OF assms] obtain fls where fls: "collect_flights fares = Inr fls"
      "map triple fls = map quote (available_fares fares)" by blast
  have "get_lowest (Inr fares) = first_min fl_price fls"
    using fls(1) head_sort_key[of fl_price fls] by (simp add: get_lowest_def get_flights_def)
  then have "map_option triple (get_lowest (Inr fares)) = first_min fst (map triple fls)"
    using first_min_map[of triple fst fls] by (simp add: triple_def)
  then show ?thesis using fls(2) by (simp add: lowest_price_scan scan_first_min)
qed

lemma lowest_none_iff:
  "get_current_lowest_price (Inr fares) = None \<longleftrightarrow> available_fares fares = []"
  by (simp add: lowest_price_scan scan_none available_fares_empty)

lemma lowest_position:
  assumes "get_current_lowest_price (Inr fares) = Some (p, d, c)"
  shows "\<exists>pre f post. fares = pre @ Some f # post \<and> available (Some f) \<and>
          price_value f = Some p \<and> fare_day f = d \<and> price_currency ''MAD'' f = c \<and>
          list_all (dearer p) pre \<and> list_all (not_cheaper p) post"
proof -
  from assms have "lowest_scan None fares = Some (p, d, c)" by (simp add: lowest_price_scan)
  from scan_some[OF this] obtain pre f post where
    h: "fares = pre @ Some f # post" "available (Some f)" "quote f = (p, d, c)"
       "list_all (dearer p) pre" "list_all (not_cheaper p) post" by auto
  note q = available_quote[OF h(2,3)]
  show ?thesis using h q by blast
qed

lemma dearer_not_equal:
  "list_all (dearer p) pre \<Longrightarrow> g \<in> set (available_fares pre) \<Longrightarrow> price_value g \<noteq> Some p"
  by (auto simp: list_all_iff available_fares_set quote_def)

lemma lowest_earliest:
  assumes r: "get_current_lowest_price (Inr fares) = Some (p, d, c)"
    and s: "date_ordered fares"
    and g: "g \<in> set (available_fares fares)" "price_value g = Some p"
  shows "d \<le> fare_day g"
proof -
  from lowest_position[OF r] obtain pre f post where
    h: "fares = pre @ Some f # post" "available (Some f)" "fare_day f = d"
       "list_all (dearer p) pre" by blast
  have split: "available_fares fares = available_fares pre @ f # available_fares post"
    using h(1,2) by (simp add: available_fares_append)
  have "g \<notin> set (available_fares pre)" using dearer_not_equal[OF h(4)] g(2) by blast
  then have "g = f \<or> g \<in> set (available_fares post)" using g(1) split by auto
  moreover have "\<forall>y\<in>set (available_fares post). fare_day f \<le> fare_day y"
    using s unfolding date_ordered_def split by (simp add: sorted_append)
  ultimately show ?thesis using h(3) by auto
qed

text \<open>
  C1 (as amended). For every fetched fare list, \<^verbatim>\<open>get_current_lowest_price\<close> returns
  nothing exactly when no fare is available; otherwise it returns the price, day and
  currency of an available fare of least price, the first such fare in the order of the
  list. When the available fares are listed in ascending order of their day, that fare
  has the earliest day among the available fares of least price. On a list whose
  filtered fares are all complete, \<^verbatim>\<open>get_lowest\<close> of \<^verbatim>\<open>bot.py\<close> returns the same fare.
\<close>

theorem lowest_is_first_minimum:
  "(get_current_lowest_price (Inr fares) = None \<longleftrightarrow> available_fares fares = []) \<and>
   (\<forall>p d c. get_current_lowest_price (Inr fares) = Some (p, d, c) \<longrightarrow>
      (\<exists>pre f post. fares = pre @ Some f # post \<and> available (Some f) \<and>
          price_value f = Some p \<and> fare_day f = d \<and> price_currency ''MAD'' f = c \<and>
          list_all (dearer p) pre \<and> list_all (not_cheaper p) post) \<and>
      (date_ordered fares \<longrightarrow>
         (\<forall>g\<in>set (available_fares fares). price_value g = Some p \<longrightarrow> d \<le> fare_day g))) \<and>
   (well_formed fares \<longrightarrow>
      map_option triple (get_lowest (Inr fares)) = get_current_lowest_price (Inr fares))"
  using lowest_none_iff lowest_position lowest_earliest get_lowest_agrees by blast

theorem lowest_is_first_minimum_witness:
  "date_ordered ex_fares \<and> well_formed ex_fares \<and>
   get_current_lowest_price (Inr ex_fares) = Some (150, ''2025-03-04'', ''MAD'') \<and>
   map_option triple (get_lowest (Inr ex_fares)) = Some (150, ''2025-03-04'', ''MAD'') \<and>
   (\<exists>pre f post. ex_fares = pre @ Some f # post \<and> available (Some f) \<and>
       price_value f = Some 150 \<and> fare_day f = ''2025-03-04'' \<and>
       list_all (dearer 150) pre \<and> list_all (not_cheaper 150) post)"
proof -
  have a: "date_ordered ex_fares" by code_simp
  have b: "well_formed ex_fares" by code_simp
  have c: "get_current_lowest_price (Inr ex_fares) = Some (150, ''2025-03-04'', ''MAD'')" by code_simp
  show ?thesis using a b c lowest_is_first_minimum[of ex_fares] by auto
qed

text \<open>
  C1 as stated fails: when the provider lists two fares of the same least price with the
  later day first, both queries return the later day.
\<close>

theorem lowest_tie_counterexample:
  "get_current_lowest_price (Inr unordered_fares) = Some (150, ''2025-03-08'', ''MAD'') \<and>
   map_option triple (get_lowest (Inr unordered_fares)) = Some (150, ''2025-03-08'', ''MAD'') \<and>
   map (\<lambda>f. (price_value f, fare_day f)) (available_fares unordered_fares) =
     [(Some 150, ''2025-03-08''), (Some 150, ''2025-03-04'')] \<and>
   ''2025-03-04'' < ''2025-03-08''"
  by code_simp

section \<open>Unavailable and unpriced fares\<close>

text \<open>
  C5. Fares marked unavailable, and fares with a missing or zero price, are to be excluded
  from every computation over a fetched fare list. The code does not do so everywhere:
  \<^verbatim>\<open>format_cheapest_fares\<close> never looks at the \<^verbatim>\<open>unavailable\<close> flag and lists a flagged
  fare, and the filter of \<^verbatim>\<open>bot.py\<close> and \<^verbatim>\<open>check_flights.py\<close> tests the price object, not
  its value, so that a fare of price zero is kept and comes out as the lowest fare, while
  \<^verbatim>\<open>get_current_lowest_price\<close> drops both.
\<close>

theorem unavailable_and_zero_fares_listed:
  "format_cheapest_fares flagged_fares = [Rule, Title, Rule, FareLine ''2025-03-08'' 150 ''MAD''] \<and>
   map_option triple (get_lowest (Inr zero_fares)) = Some (0, ''2025-03-11'', ''MAD'') \<and>
   map price_value (display_valid_fares zero_fares) = [Some 0, Some 150] \<and>
   get_current_lowest_price (Inr zero_fares) = Some (150, ''2025-03-04'', ''MAD'') \<and>
   get_current_lowest_price (Inr flagged_fares) = None"
  by code_simp

section \<open>The periodic alert check\<close>

lemma tick_pair_simps:
  "satisfied p (uid, d) = (al_active d \<and> price_le p (al_price d))"
  "alert_embed lowest (uid, d) =
     \<lparr>em_mention = uid, em_target = al_price d,
      em_current = fl_price lowest, em_date = fl_date lowest\<rparr>"
  "deliverable env lowest (uid, d) =
     (get_channel env (al_channel d) \<and>
      channel_send env (al_channel d) (alert_embed lowest (uid, d)))"
  "tg_satisfied p (chat_id, a) = (active a \<and> price_le p (target_price a))"
  "tg_notify send_message low (chat_id, a) =
     (if send_message chat_id (alert_message low a)
      then Sent chat_id (alert_message low a) else SendFailed chat_id)"
  "found env (uid, d) = get_channel env (al_channel d)"
  "numeric_target (uid, d) = (al_active d \<longrightarrow> al_price d \<noteq> NaN)"
  "notified env p (uid, d) =
     (al_active d \<and> price_le p (al_price d) \<and> get_channel env (al_channel d))"
  by (simp_all add: satisfied_def alert_embed_def deliverable_def tg_satisfied_def tg_notify_def
      found_def numeric_target_def notified_def)

lemma price_gt_le: "t \<noteq> NaN \<Longrightarrow> (\<not> price_gt p t) = price_le p t"
  by (cases t) auto

lemma job_loop_filter:
  "job_loop send_message low subs =
     map (tg_notify send_message low) (filter (tg_satisfied (fst low)) subs)"
proof (induction subs)
  case Nil show ?case by simp
next
  case (Cons sub subs)
  obtain chat_id a where sub: "sub = (chat_id, a)" by (cases sub)
  show ?case unfolding sub using Cons.IH
    by (simp add: tick_pair_simps alert_message_def Let_def)
qed

lemma lowest_nonzero:
  assumes "get_current_lowest_price r = Some (p, d, c)"
  shows "p \<noteq> 0"
proof (cases r)
  case (Inl e) with assms show ?thesis by (simp add: get_current_lowest_price_def)
next
  case (Inr fares)
  with assms lowest_position[of fares p d c] obtain f where
    "available (Some f)" "price_value f = Some p" by blast
  then show ?thesis by (auto simp: available_def truthy_num_def)
qed

lemma job_store: "fst (check_alerts_job send_message r s) = s"
  by (simp add: check_alerts_job_def split: option.splits)

lemma job_events:
  assumes "get_current_lowest_price r = Some (p, d, c)"
  shows "snd (check_alerts_job send_message r s) =
     map (tg_notify send_message (p, d, c)) (filter (tg_satisfied p) (price_alerts s))"
  using assms lowest_nonzero[OF assms] by (simp add: check_alerts_job_def job_loop_filter)

lemma job_ticks_map:
  "job_ticks send_message rs s = map (\<lambda>r. snd (check_alerts_job send_message r s)) rs"
proof (induction rs)
  case Nil show ?case by simp
next
  case (Cons r rs)
  obtain s' evs where e: "check_alerts_job send_message r s = (s', evs)" by (cases "check_alerts_job send_message r s")
  then have "s' = s" using job_store[of send_message r s] by simp
  then show ?case using e Cons by simp
qed

lemma alerts_loop_filter:
  assumes "list_all numeric_target subs" and "list_all (send_returns env lowest) subs"
  shows "alerts_loop env lowest subs =
     (map (\<lambda>sub. (al_channel (snd sub), alert_embed lowest sub))
        (filter (notified env (fl_price lowest)) subs), None)"
  using assms
proof (induction subs)
  case Nil show ?case by simp
next
  case (Cons sub subs)
  obtain uid d where sub: "sub = (uid, d)" by (cases sub)
  have ih: "alerts_loop env lowest subs =
     (map (\<lambda>sub. (al_channel (snd sub), alert_embed lowest sub))
        (filter (notified env (fl_price lowest)) subs), None)"
    using Cons by simp
  have n: "al_active d \<longrightarrow> al_price d \<noteq> NaN"
    using Cons.prems(1) sub by (simp add: tick_pair_simps)
  have r: "send_returns env lowest (uid, d)" using Cons.prems(2) sub by simp
  show ?case
  proof (cases "al_active d")
    case False
    then show ?thesis unfolding sub using ih by (simp add: tick_pair_simps)
  next
    case True
    then have g: "(\<not> price_gt (fl_price lowest) (al_price d)) = price_le (fl_price lowest) (al_price d)"
      using n price_gt_le by blast
    show ?thesis
    proof (cases "price_le (fl_price lowest) (al_price d) \<and> get_channel env (al_channel d)")
      case False
      then show ?thesis unfolding sub using ih True g
        by (auto simp: tick_pair_simps)
    next
      case yes: True
      then have "channel_send env (al_channel d) (alert_embed lowest (uid, d))"
        using r True by (simp add: send_returns_def tick_pair_simps)
      then show ?thesis unfolding sub using ih True g yes
        by (simp add: tick_pair_simps Let_def)
    qed
  qed
qed

lemma check_store: "fst (check_alerts env r s) = s"
  by (simp add: check_alerts_def split: option.splits)

lemma alert_ticks_map:
  "alert_ticks env rs s = map (\<lambda>r. snd (check_alerts env r s)) rs"
proof (induction rs)
  case Nil show ?case by simp
next
  case (Cons r rs)
  obtain s' out where e: "check_alerts env r s = (s', out)" by (cases "check_alerts env r s")
  then have "s' = s" using check_store[of env r s] by simp
  then show ?case using e Cons by simp
qed

lemma alerts_loop_sound:
  assumes "list_all numeric_target subs"
  shows "set (fst (alerts_loop env lowest subs)) \<subseteq>
     (\<lambda>sub. (al_channel (snd sub), alert_embed lowest sub)) `
       set (filter (notified env (fl_price lowest)) subs)"
  using assms
proof (induction subs)
  case Nil show ?case by simp
next
  case (Cons sub subs)
  obtain uid d where sub: "sub = (uid, d)" by (cases sub)
  have ih: "set (fst (alerts_loop env lowest subs)) \<subseteq>
     (\<lambda>sub. (al_channel (snd sub), alert_embed lowest sub)) `
       set (filter (notified env (fl_price lowest)) subs)"
    using Cons by simp
  have n: "al_active d \<longrightarrow> al_price d \<noteq> NaN"
    using Cons.prems sub by (simp add: tick_pair_simps)
  show ?case
  proof (cases "al_active d")
    case False
    then show ?thesis unfolding sub using ih by (auto simp: tick_pair_simps)
  next
    case True
    then have g: "(\<not> price_gt (fl_price lowest) (al_price d)) = price_le (fl_price lowest) (al_price d)"
      using n price_gt_le by blast
    show ?thesis unfolding sub using ih True g
      by (auto simp: tick_pair_simps Let_def split: prod.splits)
  qed
qed

lemma check_alerts_sound:
  assumes "get_lowest r = Some lowest" and "list_all numeric_target (alerts s)"
  shows "set (fst (snd (check_alerts env r s))) \<subseteq>
     (\<lambda>sub. (al_channel (snd sub), alert_embed lowest sub)) `
       set (filter (notified env (fl_price lowest)) (alerts s))"
  using assms alerts_loop_sound[of "alerts s" env lowest] by (simp add: check_alerts_def)

text \<open>
  C4 (as amended). On every tick on which a lowest fare is determinable,
  \<^verbatim>\<open>check_alerts_job\<close> generates a notification for exactly those active subscriptions
  whose target price is at least the lowest fare's price, one each, in the order of the
  store, whatever becomes of the sends. \<^verbatim>\<open>check_alerts\<close> of \<^verbatim>\<open>bot.py\<close> sends one for
  exactly those among them whose channel the Discord client finds, and passes over the
  others in silence; this is stated for stores whose active targets are not NaN, and the
  equality for sends that return. No tick changes the store, so every later tick does the
  same again.
\<close>

theorem tick_notifies_satisfied:
  "(get_current_lowest_price r = Some (p, d, c) \<longrightarrow>
      check_alerts_job send_message r ts =
        (ts, map (tg_notify send_message (p, d, c)) (filter (tg_satisfied p) (price_alerts ts)))) \<and>
   job_ticks send_message rs ts = map (\<lambda>r. snd (check_alerts_job send_message r ts)) rs \<and>
   (get_lowest r = Some lowest \<longrightarrow> list_all numeric_target (alerts s) \<longrightarrow>
      set (fst (snd (check_alerts env r s))) \<subseteq>
        (\<lambda>sub. (al_channel (snd sub), alert_embed lowest sub)) `
          set (filter (notified env (fl_price lowest)) (alerts s)) \<and>
      (list_all (send_returns env lowest) (alerts s) \<longrightarrow>
         check_alerts env r s =
           (s, map (\<lambda>sub. (al_channel (snd sub), alert_embed lowest sub))
                 (filter (notified env (fl_price lowest)) (alerts s)), None))) \<and>
   alert_ticks env rs s = map (\<lambda>r. snd (check_alerts env r s)) rs"
proof (intro conjI impI)
  assume a: "get_current_lowest_price r = Some (p, d, c)"
  show "check_alerts_job send_message r ts =
        (ts, map (tg_notify send_message (p, d, c)) (filter (tg_satisfied p) (price_alerts ts)))"
    using job_store[of send_message r ts] job_events[OF a, of send_message ts]
    by (cases "check_alerts_job send_message r ts") simp
next
  show "job_ticks send_message rs ts = map (\<lambda>r. snd (check_alerts_job send_message r ts)) rs"
    by (rule job_ticks_map)
next
  assume "get_lowest r = Some lowest" "list_all numeric_target (alerts s)"
  then show "set (fst (snd (check_alerts env r s))) \<subseteq>
        (\<lambda>sub. (al_channel (snd sub), alert_embed lowest sub)) `
          set (filter (notified env (fl_price lowest)) (alerts s))"
    by (rule check_alerts_sound)
next
  assume "get_lowest r = Some lowest" "list_all numeric_target (alerts s)"
    "list_all (send_returns env lowest) (alerts s)"
  then show "check_alerts env r s =
        (s, map (\<lambda>sub. (al_channel (snd sub), alert_embed lowest sub))
              (filter (notified env (fl_price lowest)) (alerts s)), None)"
    by (simp add: check_alerts_def alerts_loop_filter)
next
  show "alert_ticks env rs s = map (\<lambda>r. snd (check_alerts env r s)) rs"
    by (rule alert_ticks_map)
qed

theorem tick_notifies_satisfied_witness:
  "get_current_lowest_price (Inr ex_fares) = Some (150, ''2025-03-04'', ''MAD'') \<and>
   get_lowest (Inr ex_fares) = Some ex_lowest \<and>
   list_all numeric_target (alerts sample_store) \<and>
   list_all (send_returns patchy_discord ex_lowest) (alerts sample_store) \<and>
   snd (check_alerts_job (\<lambda>c m. True) (Inr ex_fares) sample_tg_store) =
     [Sent ''1001'' \<lparr>m_target = Num 160, m_price = 150, m_currency = ''MAD'', m_date = ''2025-03-04''\<rparr>,
      Sent ''1004'' \<lparr>m_target = Num 150, m_price = 150, m_currency = ''MAD'', m_date = ''2025-03-04''\<rparr>] \<and>
   job_ticks (\<lambda>c m. True) [Inr ex_fares, Inr ex_fares] sample_tg_store =
     [snd (check_alerts_job (\<lambda>c m. True) (Inr ex_fares) sample_tg_store),
      snd (check_alerts_job (\<lambda>c m. True) (Inr ex_fares) sample_tg_store)] \<and>
   snd (check_alerts patchy_discord (Inr ex_fares) sample_store) =
     ([(7, \<lparr>em_mention = ''11'', em_target = Num 160, em_current = 150, em_date = ''2025-03-04''\<rparr>),
       (10, \<lparr>em_mention = ''14'', em_target = Num 150, em_current = 150, em_date = ''2025-03-04''\<rparr>)],
      None)"
proof -
  have a: "get_current_lowest_price (Inr ex_fares) = Some (150, ''2025-03-04'', ''MAD'')" by code_simp
  have b: "get_lowest (Inr ex_fares) = Some ex_lowest" by code_simp
  have c: "list_all numeric_target (alerts sample_store)" by code_simp
  have c': "list_all (send_returns patchy_discord ex_lowest) (alerts sample_store)" by code_simp
  have d: "map (tg_notify (\<lambda>c m. True) (150, ''2025-03-04'', ''MAD''))
             (filter (tg_satisfied 150) (price_alerts sample_tg_store)) =
     [Sent ''1001'' \<lparr>m_target = Num 160, m_price = 150, m_currency = ''MAD'', m_date = ''2025-03-04''\<rparr>,
      Sent ''1004'' \<lparr>m_target = Num 150, m_price = 150, m_currency = ''MAD'', m_date = ''2025-03-04''\<rparr>]"
    by code_simp
  have e: "map (\<lambda>sub. (al_channel (snd sub), alert_embed ex_lowest sub))
              (filter (notified patchy_discord (fl_price ex_lowest)) (alerts sample_store)) =
     [(7, \<lparr>em_mention = ''11'', em_target = Num 160, em_current = 150, em_date = ''2025-03-04''\<rparr>),
      (10, \<lparr>em_mention = ''14'', em_target = Num 150, em_current = 150, em_date = ''2025-03-04''\<rparr>)]"
    by code_simp
  show ?thesis
    using a b c c' d e
      tick_notifies_satisfied[of "Inr ex_fares" 150 "''2025-03-04''" "''MAD''" "\<lambda>c m. True"
        sample_tg_store "[Inr ex_fares, Inr ex_fares]" ex_lowest sample_store patchy_discord]
    by simp
qed

text \<open>
  C4 as stated fails for \<^verbatim>\<open>check_alerts\<close> of \<^verbatim>\<open>bot.py\<close>: with a lowest fare of 150,
  subscriber 11 is active with a target of 160, but the client does not find channel 7,
  and the tick sends to subscriber 14 only and ends without an error.
\<close>

theorem unfound_channel_counterexample:
  "get_lowest (Inr ex_fares) = Some ex_lowest \<and>
   fl_price ex_lowest = 150 \<and>
   filter (satisfied 150) (alerts sample_store) =
     [(''11'', \<lparr>al_price = Num 160, al_channel = 7, al_active = True\<rparr>),
      (''14'', \<lparr>al_price = Num 150, al_channel = 10, al_active = True\<rparr>)] \<and>
   check_alerts deaf_discord (Inr ex_fares) sample_store =
     (sample_store,
      [(10, \<lparr>em_mention = ''14'', em_target = Num 150, em_current = 150, em_date = ''2025-03-04''\<rparr>)],
      None)"
  by code_simp

text \<open>
  A target of NaN, which Python's \<^verbatim>\<open>float\<close> accepts, is at least no price. The test of
  \<^verbatim>\<open>bot.py\<close>, \<^verbatim>\<open>lowest > target\<close>, is false for it and the subscriber is sent a message; the
  test of \<^verbatim>\<open>telegram_bot.py\<close>, \<^verbatim>\<open>lowest <= target\<close>, is false as well and the subscriber is
  not.
\<close>

lemma nan_target_passes_discord_test:
  "filter (satisfied 150) (alerts nan_store) = [] \<and>
   check_alerts reliable_discord (Inr ex_fares) nan_store =
     (nan_store,
      [(11, \<lparr>em_mention = ''15'', em_target = NaN, em_current = 150, em_date = ''2025-03-04''\<rparr>)],
      None) \<and>
   check_alerts_job (\<lambda>c m. True) (Inr ex_fares) nan_tg_store = (nan_tg_store, [])"
  by code_simp

lemma scan_all_unavailable: "all_unavailable fares \<Longrightarrow> lowest_scan acc fares = acc"
proof (induction fares)
  case Nil show ?case by simp
next
  case (Cons x xs) then show ?case
    by (cases x) (auto simp: all_unavailable_def scan_step available_def)
qed

lemma collect_all_unavailable: "all_unavailable fares \<Longrightarrow> collect_flights fares = Inr []"
proof (induction fares)
  case Nil show ?case by simp
next
  case (Cons x xs) then show ?case
    by (cases x) (auto simp: all_unavailable_def keep_fare_def)
qed

text \<open>
  C8. When no lowest fare is determinable, because the provider returned an empty fare
  list or every fare in it is unavailable, a tick notifies nobody and ends without an
  error.
\<close>

theorem tick_without_lowest_is_empty:
  "(get_current_lowest_price r = None \<longrightarrow> check_alerts_job send_message r ts = (ts, [])) \<and>
   (get_lowest r = None \<longrightarrow> check_alerts env r s = (s, [], None)) \<and>
   (all_unavailable fares \<longrightarrow>
      get_current_lowest_price (Inr fares) = None \<and> get_lowest (Inr fares) = None \<and>
      check_alerts_job send_message (Inr fares) ts = (ts, []) \<and>
      check_alerts env (Inr fares) s = (s, [], None))"
  by (simp add: check_alerts_job_def check_alerts_def get_current_lowest_price_def
      get_lowest_def get_flights_def scan_all_unavailable collect_all_unavailable)

theorem tick_without_lowest_is_empty_witness:
  "all_unavailable flagged_fares \<and> all_unavailable [] \<and>
   get_current_lowest_price (Inr zero_fares) \<noteq> None \<and>
   check_alerts_job (\<lambda>c m. True) (Inr flagged_fares) sample_tg_store = (sample_tg_store, []) \<and>
   check_alerts reliable_discord (Inr flagged_fares) sample_store = (sample_store, [], None) \<and>
   check_alerts_job (\<lambda>c m. True) (Inr []) sample_tg_store = (sample_tg_store, []) \<and>
   check_alerts reliable_discord (Inr []) sample_store = (sample_store, [], None)"
proof -
  have a: "all_unavailable flagged_fares" by code_simp
  have b: "all_unavailable []" by code_simp
  have c: "get_current_lowest_price (Inr zero_fares) \<noteq> None" by code_simp
  show ?thesis
    using a b c
      tick_without_lowest_is_empty[of "Inr flagged_fares" "\<lambda>c m. True" sample_tg_store
        reliable_discord sample_store flagged_fares]
      tick_without_lowest_is_empty[of "Inr []" "\<lambda>c m. True" sample_tg_store
        reliable_discord sample_store "[]"]
    by simp
qed

text \<open>
  C9. A failure to deliver one notification is to be recorded, not retried, and must not
  keep the other notifications of the tick from going out. \<^verbatim>\<open>check_alerts_job\<close> does that;
  \<^verbatim>\<open>check_alerts\<close> of \<^verbatim>\<open>bot.py\<close> has no \<^verbatim>\<open>try\<close> around the send, so the first send that
  raises ends the tick: the subscriber after it, whose channel would take the message, is
  not notified.
\<close>

theorem send_failure_ends_discord_tick:
  "get_lowest (Inr ex_fares) = Some ex_lowest \<and>
   filter (satisfied (fl_price ex_lowest)) (alerts sample_store) =
     [(''11'', \<lparr>al_price = Num 160, al_channel = 7, al_active = True\<rparr>),
      (''14'', \<lparr>al_price = Num 150, al_channel = 10, al_active = True\<rparr>)] \<and>
   deliverable failing_discord ex_lowest (''14'', \<lparr>al_price = Num 150, al_channel = 10, al_active = True\<rparr>) \<and>
   check_alerts failing_discord (Inr ex_fares) sample_store = (sample_store, [], Some SendError) \<and>
   snd (check_alerts_job (\<lambda>c m. c \<noteq> ''1001'') (Inr ex_fares) sample_tg_store) =
     [SendFailed ''1001'',
      Sent ''1004'' \<lparr>m_target = Num 150, m_price = 150, m_currency = ''MAD'', m_date = ''2025-03-04''\<rparr>]"
  by code_simp

text \<open>
  C2 (as amended). The code keeps no fare snapshot between ticks. A failed fetch is
  swallowed: the fare queries answer as they do for an empty fare list, and a tick whose
  fetch fails notifies nobody, whatever an earlier tick fetched.
\<close>

theorem failed_fetch_is_swallowed:
  "get_flights (Inl e) = get_flights (Inr []) \<and>
   get_lowest (Inl e) = None \<and>
   get_current_lowest_price (Inl e) = None \<and>
   check_alerts env (Inl e) s = (s, [], None) \<and>
   check_alerts_job send_message (Inl e) ts = (ts, []) \<and>
   alert_ticks env (rs @ [Inl e]) s = alert_ticks env rs s @ [([], None)] \<and>
   job_ticks send_message (rs @ [Inl e]) ts = job_ticks send_message rs ts @ [[]]"
  by (simp add: alert_ticks_map job_ticks_map check_alerts_job_def check_alerts_def
      get_current_lowest_price_def get_lowest_def get_flights_def)

text \<open>
  C2 as stated fails: after a tick that fetched a lowest fare of 150 and notified two
  subscribers, a tick whose fetch fails notifies none of them, and the failure cannot be
  told from an empty fare list.
\<close>

theorem failed_fetch_counterexample:
  "alert_ticks reliable_discord [Inr ex_fares, Inl FetchError] sample_store =
     [([(7, \<lparr>em_mention = ''11'', em_target = Num 160, em_current = 150, em_date = ''2025-03-04''\<rparr>),
        (10, \<lparr>em_mention = ''14'', em_target = Num 150, em_current = 150, em_date = ''2025-03-04''\<rparr>)],
       None),
      ([], None)] \<and>
   job_ticks (\<lambda>c m. True) [Inr ex_fares, Inl FetchError] sample_tg_store =
     [[Sent ''1001'' \<lparr>m_target = Num 160, m_price = 150, m_currency = ''MAD'', m_date = ''2025-03-04''\<rparr>,
       Sent ''1004'' \<lparr>m_target = Num 150, m_price = 150, m_currency = ''MAD'', m_date = ''2025-03-04''\<rparr>],
      []] \<and>
   get_flights (Inl FetchError) = get_flights (Inr []) \<and>
   get_current_lowest_price (Inl FetchError) = get_current_lowest_price (Inr [])"
  by code_simp

section \<open>The subscription stores\<close>

lemma alerts_save [simp]: "alerts (save_alerts w s) = alerts s"
  by (cases w) (simp_all add: save_alerts_def)

lemma price_alerts_save [simp]: "price_alerts (tg_save_alerts w s) = price_alerts s"
  by (cases w) (simp_all add: tg_save_alerts_def)

text \<open>
  C7. For every subscriber id, subscribing overwrites any subscription already stored for
  that id, an inactive one included: the lookup that follows returns the subscription
  just written, with the new target price and the active flag set.
\<close>

theorem subscribe_then_get:
  "get_alert (fst (cmd_alert w uid channel_id target s)) uid =
     Some \<lparr>al_price = target, al_channel = channel_id, al_active = True\<rparr> \<and>
   (py_float a = Some target \<longrightarrow>
      tg_get_alert (fst (set_alert_command py_float w now chat_id (a # args) ts)) chat_id =
        Some \<lparr>target_price = target, active = True, created = now\<rparr>)"
  by (simp add: get_alert_def tg_get_alert_def cmd_alert_def set_alert_command_def update_conv')

theorem subscribe_then_get_witness:
  "get_alert stale_store ''42'' = Some \<lparr>al_price = Num 200, al_channel = 7, al_active = False\<rparr> \<and>
   get_alert (fst (cmd_alert WriteOk ''42'' 9 (Num 160) stale_store)) ''42'' =
     Some \<lparr>al_price = Num 160, al_channel = 9, al_active = True\<rparr> \<and>
   tg_get_alert stale_tg_store ''42'' =
     Some \<lparr>target_price = Num 200, active = False, created = ''2025-02-01T08:00:00''\<rparr> \<and>
   tg_get_alert
     (fst (set_alert_command (\<lambda>a. if a = ''160'' then Some (Num 160) else None) WriteOk
        ''2025-03-01T12:00:00'' ''42'' [''160''] stale_tg_store)) ''42'' =
     Some \<lparr>target_price = Num 160, active = True, created = ''2025-03-01T12:00:00''\<rparr>"
proof -
  have "get_alert stale_store ''42'' = Some \<lparr>al_price = Num 200, al_channel = 7, al_active = False\<rparr>"
    by (simp add: get_alert_def stale_store_def)
  moreover have "tg_get_alert stale_tg_store ''42'' =
     Some \<lparr>target_price = Num 200, active = False, created = ''2025-02-01T08:00:00''\<rparr>"
    by (simp add: tg_get_alert_def stale_tg_store_def)
  ultimately show ?thesis
    using subscribe_then_get[of WriteOk "''42''" 9 "Num 160" stale_store
        "\<lambda>a. if a = ''160'' then Some (Num 160) else None" "''160''" "''2025-03-01T12:00:00''" "''42''" "[]"
        stale_tg_store]
    by simp
qed

text \<open>
  C3 (as amended). Subscribing and unsubscribing change the in-memory set first and then
  attempt one write, whose failure is swallowed: the command always answers with success,
  the in-memory set always holds the change, and the file holds the in-memory set when the
  write succeeds, keeps its old content when \<^verbatim>\<open>open\<close> fails, and is left unreadable when the
  dump fails. Nothing is rolled back.
\<close>

theorem subscribe_write_swallowed:
  "snd (cmd_alert w uid channel_id target s) = AlertSet target \<and>
   alerts (fst (cmd_alert w uid channel_id target s)) =
     AList.update uid \<lparr>al_price = target, al_channel = channel_id, al_active = True\<rparr> (alerts s) \<and>
   alerts_file (fst (cmd_alert w uid channel_id target s)) =
     (case w of
        WriteOk \<Rightarrow> Valid (alerts (fst (cmd_alert w uid channel_id target s)))
      | OpenFails \<Rightarrow> alerts_file s
      | DumpFails \<Rightarrow> Corrupt) \<and>
   snd (cmd_stopalert w uid s) = AlertDisabled \<and>
   alerts (fst (cmd_stopalert w uid s)) =
     AList.map_entry uid (\<lambda>a. a\<lparr>al_active := False\<rparr>) (alerts s) \<and>
   alerts_file (fst (cmd_stopalert w uid s)) =
     (if uid \<in> fst ` set (alerts s)
      then (case w of
              WriteOk \<Rightarrow> Valid (alerts (fst (cmd_stopalert w uid s)))
            | OpenFails \<Rightarrow> alerts_file s
            | DumpFails \<Rightarrow> Corrupt)
      else alerts_file s)"
proof -
  have "uid \<notin> fst ` set al \<Longrightarrow> AList.map_entry uid g al = al" for al :: alerts_t and g
    by (induction al) auto
  then show ?thesis
    by (cases w) (simp_all add: cmd_alert_def cmd_stopalert_def save_alerts_def)
qed

text \<open>
  C3 as stated fails: when the write fails, the command still answers with success and the
  in-memory set differs from the persisted one.
\<close>

theorem subscribe_not_atomic_counterexample:
  "cmd_alert OpenFails ''42'' 7 (Num 160) empty_store =
     (\<lparr>alerts = [(''42'', \<lparr>al_price = Num 160, al_channel = 7, al_active = True\<rparr>)],
       alerts_file = Valid []\<rparr>, AlertSet (Num 160)) \<and>
   persisted (fst (cmd_alert OpenFails ''42'' 7 (Num 160) empty_store)) = [] \<and>
   cmd_stopalert OpenFails ''42'' active_store =
     (\<lparr>alerts = [(''42'', \<lparr>al_price = Num 160, al_channel = 7, al_active = False\<rparr>)],
       alerts_file = Valid [(''42'', \<lparr>al_price = Num 160, al_channel = 7, al_active = True\<rparr>)]\<rparr>,
      AlertDisabled) \<and>
   persisted (fst (cmd_stopalert OpenFails ''42'' active_store)) =
     [(''42'', \<lparr>al_price = Num 160, al_channel = 7, al_active = True\<rparr>)]"
  by (simp add: cmd_alert_def cmd_stopalert_def save_alerts_def empty_store_def active_store_def
      persisted_def load_alerts_def)

subsection \<open>Loading a damaged subscription file\<close>

text \<open>
  C10. If the persisted subscription file exists at startup but cannot be read or parsed,
  loading yields the empty subscription set, whatever was in memory or stored before, and
  raises nothing: both \<open>load_alerts\<close> functions return a store in that case.
\<close>

theorem load_alerts_corrupt_empty:
  "alerts (load_alerts \<lparr>alerts = mem, alerts_file = Corrupt\<rparr>) = [] \<and>
   alerts_file (load_alerts \<lparr>alerts = mem, alerts_file = Corrupt\<rparr>) = Corrupt \<and>
   price_alerts (tg_load_alerts \<lparr>price_alerts = tmem, price_alerts_file = Corrupt\<rparr>) = [] \<and>
   price_alerts_file (tg_load_alerts \<lparr>price_alerts = tmem, price_alerts_file = Corrupt\<rparr>) = Corrupt"
  by (simp add: load_alerts_def tg_load_alerts_def)

section \<open>The query window\<close>

text \<open>
  C6 (as amended). \<^verbatim>\<open>get_cheapest_fares\<close> queries from the start date to the start date
  plus twice \<^verbatim>\<open>flex_days\<close> days; \<^verbatim>\<open>get_flights\<close> of \<^verbatim>\<open>check_flights.py\<close> queries from
  tomorrow to today plus \<^verbatim>\<open>days\<close> days, or the one date it is given.
\<close>

theorem query_window_end:
  "get_cheapest_fares_params date_out flex_days =
     (if 1 \<le> date_out + 2 * flex_days \<and> date_out + 2 * flex_days \<le> 3652059 \<and>
         - 999999999 \<le> 2 * flex_days \<and> 2 * flex_days \<le> 999999999
      then Inr (date_out, date_out + 2 * flex_days) else Inl OverflowError) \<and>
   check_flights_params now days None =
     (if 1 \<le> now + 1 \<and> now + 1 \<le> 3652059 \<and> 1 \<le> now + days \<and> now + days \<le> 3652059 \<and>
         - 999999999 \<le> days \<and> days \<le> 999999999
      then Inr (now + 1, now + days) else Inl OverflowError) \<and>
   check_flights_params now days (Some d) = Inr (d, d)"
  by (auto simp: get_cheapest_fares_params_def check_flights_params_def add_days_def)

text \<open>
  C6 as stated fails: from 2025-03-01 (day 739311) with 30 days, \<^verbatim>\<open>get_cheapest_fares\<close>
  queries up to day 739371, 60 days on; with 60 days, \<^verbatim>\<open>check_flights.py\<close> starts a day
  later and ends 59 days after its start.
\<close>

theorem query_window_counterexample:
  "get_cheapest_fares_params 739311 30 = Inr (739311, 739371) \<and>
   (739371::int) = 739311 + 60 \<and> (739371::int) > 739311 + 30 \<and>
   check_flights_params 739311 60 None = Inr (739312, 739371) \<and>
   (739371::int) < 739312 + 60"
  by (simp add: get_cheapest_fares_params_def check_flights_params_def add_days_def)

end
